theory Spec2Isabelle
  imports Main "HOL-Library.Word"
begin

section \<open>Python values, exceptions and the external libraries\<close>

text \<open>
  The model follows \<^verbatim>\<open>pyvideochat/hosting.py\<close> and \<^verbatim>\<open>pyvideochat/video.py\<close>.
  A frame is an opaque Python object of type \<open>'f\<close>. A byte string is a list of bytes.
  Exceptions are values; every \<^verbatim>\<open>try ... except:\<close> of the source is a case split
  on them. Output of \<^verbatim>\<open>_Logger\<close> is presentation only and is not recorded, but
  the evaluation of its argument is modelled where it reads an attribute.
\<close>

type_synonym byte = "8 word"
type_synonym bytes = "byte list"

datatype pyerr =
    AttributeError | StructError | PickleError | SocketError | CvError
  | SystemExit | TypeError | ValueError | OverflowError | EOFError

datatype byteorder = Little | Big

datatype resolution = Res nat nat | FULLSCREEN

text \<open>
  What the source imports and does not define: \<^verbatim>\<open>pickle.dumps\<close>,
  \<^verbatim>\<open>pickle.loads\<close>, \<^verbatim>\<open>cv2.resize\<close>, \<^verbatim>\<open>cv2.imshow\<close>, the builtin
  \<^verbatim>\<open>int\<close> and the host's byte order (the format \<^verbatim>\<open>"Q"\<close> is native).
  They are parameters of the model; \<open>None\<close> stands for a raised exception.
\<close>

record 'f lib =
  dumps :: "'f \<Rightarrow> bytes option"
  loads :: "bytes \<Rightarrow> 'f option"
  cv_resize :: "'f \<Rightarrow> resolution \<Rightarrow> 'f option"
  imshow_ok :: "'f \<Rightarrow> bool"
  py_int :: "string \<Rightarrow> int option"
  native :: byteorder

subsection \<open>\<^verbatim>\<open>struct.pack("Q", n)\<close> and \<^verbatim>\<open>struct.unpack("Q", b)\<close>\<close>

definition payload_size :: nat where
  "payload_size = 8"

fun le_bytes :: "nat \<Rightarrow> nat \<Rightarrow> bytes" where
  "le_bytes 0 n = []"
| "le_bytes (Suc k) n = of_nat (n mod 256) # le_bytes k (n div 256)"

fun le_nat :: "bytes \<Rightarrow> nat" where
  "le_nat [] = 0"
| "le_nat (b # bs) = unat b + 256 * le_nat bs"

definition pack_Q :: "byteorder \<Rightarrow> nat \<Rightarrow> pyerr + bytes" where
  "pack_Q bo n =
     (if n < 2 ^ 64
      then Inr (case bo of Little \<Rightarrow> le_bytes payload_size n
                         | Big \<Rightarrow> rev (le_bytes payload_size n))
      else Inl StructError)"

definition unpack_Q :: "byteorder \<Rightarrow> bytes \<Rightarrow> pyerr + nat" where
  "unpack_Q bo b =
     (if length b = payload_size
      then Inr (le_nat (case bo of Little \<Rightarrow> b | Big \<Rightarrow> rev b))
      else Inl StructError)"

section \<open>The endpoint and its environment\<close>

text \<open>
  What the peer delivers on the connected socket, in order: a segment of bytes, or a
  failure of the next \<^verbatim>\<open>recv\<close> (a timeout, a reset). When the list is
  exhausted the peer has closed the stream and \<^verbatim>\<open>recv\<close> returns \<^verbatim>\<open>b""\<close>.
\<close>

datatype delivery = Chunk bytes | Fault

text \<open>
  The value of the attribute \<^verbatim>\<open>client_socket\<close> when it is bound: Python's
  \<^verbatim>\<open>None\<close>, the endpoint's own socket (the client role aliases
  \<^verbatim>\<open>self.socket\<close>) or the socket returned by \<^verbatim>\<open>accept\<close>.
\<close>

datatype pysock = NoneVal | OwnSock | PeerSock

datatype effect = Binding | Listening | Accepting | Dialing | Sleeping nat

text \<open>
  The attributes of \<^verbatim>\<open>_Socket\<close> first (an attribute that \<^verbatim>\<open>__init__\<close>
  may leave unbound is an option; \<^verbatim>\<open>video\<close> holds the window's name), then the
  state of the operating system and of the peer that the methods read and change:
  \<^item> \<open>socket_closed\<close>, \<open>socket_bound\<close>, \<open>socket_timeout\<close>: the state of
    \<^verbatim>\<open>self.socket\<close>;
  \<^item> \<open>incoming\<close>: what \<^verbatim>\<open>recv\<close> on the connected socket will deliver;
    \<open>outgoing\<close>: the messages that \<^verbatim>\<open>sendall\<close> has written;
    \<open>sendall_ok\<close>: whether the next calls of \<^verbatim>\<open>sendall\<close> succeed (they do
    once the list is exhausted);
  \<^item> \<open>camera\<close>: what the next calls of \<^verbatim>\<open>video.read\<close> yield, a frame or
    nothing; \<open>escape_key\<close>: whether the escape key is pressed in the next calls of
    \<^verbatim>\<open>video.show\<close>; \<open>displayed\<close>: the frames shown;
  \<^item> \<open>stdin\<close>: the lines that \<^verbatim>\<open>input\<close> will read; \<open>port_free\<close>: whether
    \<^verbatim>\<open>bind\<close> finds the port free;
  \<^item> \<open>peer_ready n\<close>: whether a peer connects in the call number \<open>n\<close> of
    \<^verbatim>\<open>accept\<close> (of \<^verbatim>\<open>connect\<close> on the socket); \<open>attempts\<close>: the number
    of such calls made; \<open>effects\<close>: the calls of \<^verbatim>\<open>bind\<close>,
    \<^verbatim>\<open>listen\<close>, \<^verbatim>\<open>accept\<close>, \<^verbatim>\<open>connect\<close> and
    \<^verbatim>\<open>time.sleep\<close>, in order.
\<close>

record 'f endpoint =
  capture_video :: bool
  screen_resolution :: resolution
  timed_out :: bool
  video :: "string option"
  client_socket :: "pysock option"
  socket_type :: "string option"
  socket_closed :: bool
  socket_bound :: bool
  socket_timeout :: "int option"
  incoming :: "delivery list"
  outgoing :: "bytes list"
  sendall_ok :: "bool list"
  camera :: "'f option list"
  escape_key :: "bool list"
  displayed :: "'f list"
  stdin :: "string list"
  port_free :: bool
  peer_ready :: "nat \<Rightarrow> bool"
  attempts :: nat
  effects :: "effect list"

text \<open>The values that the methods return: \<^verbatim>\<open>None\<close>, a boolean, a pair.\<close>

datatype 'f pyval = PyNone | PyBool bool | PyTuple bool "'f option"

subsection \<open>\<^verbatim>\<open>socket.recv\<close>\<close>

text \<open>
  \<^verbatim>\<open>recv(bufsize)\<close> refuses a \<^verbatim>\<open>bufsize\<close> above \<^verbatim>\<open>sys.maxsize\<close>
  (taken for a 64-bit build) with \<^verbatim>\<open>OverflowError\<close>. The memory that the
  buffer takes is not modelled. Otherwise it returns what has arrived, at most
  \<^verbatim>\<open>bufsize\<close> bytes.
\<close>

definition ssize_max :: nat where
  "ssize_max = 2 ^ 63 - 1"

fun recv :: "nat \<Rightarrow> delivery list \<Rightarrow> (pyerr + bytes) \<times> delivery list" where
  "recv n [] = (Inr [], [])"
| "recv n (Fault # ds) = (Inl SocketError, ds)"
| "recv n (Chunk bs # ds) =
     (if bs = [] then recv n ds
      else if length bs \<le> n then (Inr bs, ds)
      else (Inr (take n bs), Chunk (drop n bs) # ds))"

definition sock_recv :: "nat \<Rightarrow> 'f endpoint \<Rightarrow> (pyerr + bytes) \<times> 'f endpoint" where
  "sock_recv n ep =
     (case client_socket ep of
        None \<Rightarrow> (Inl AttributeError, ep)
      | Some NoneVal \<Rightarrow> (Inl AttributeError, ep)
      | Some sk \<Rightarrow>
          if ssize_max < n then (Inl OverflowError, ep)
          else if sk = OwnSock \<and> socket_closed ep then (Inl SocketError, ep)
          else (case recv n (incoming ep) of (r, ds) \<Rightarrow> (r, ep\<lparr>incoming := ds\<rparr>)))"

subsection \<open>\<^verbatim>\<open>Video.resize\<close> and \<^verbatim>\<open>Video.show\<close>\<close>

definition resize :: "'f lib \<Rightarrow> 'f \<Rightarrow> resolution \<Rightarrow> 'f" where
  "resize L frame r = (case cv_resize L frame r of Some f \<Rightarrow> f | None \<Rightarrow> frame)"

definition video_show :: "'f lib \<Rightarrow> 'f \<Rightarrow> 'f endpoint \<Rightarrow> (pyerr + unit) \<times> 'f endpoint" where
  "video_show L frame ep =
     (case video ep of
        None \<Rightarrow> (Inl AttributeError, ep)
      | Some win_name \<Rightarrow>
          if \<not> imshow_ok L frame then (Inl CvError, ep)
          else
            (let ep1 = ep\<lparr>displayed := displayed ep @ [frame]\<rparr> in
             case escape_key ep1 of
               [] \<Rightarrow> (Inr (), ep1)
             | k # ks \<Rightarrow>
                 if k then (Inl SystemExit, ep1\<lparr>escape_key := ks\<rparr>)
                 else (Inr (), ep1\<lparr>escape_key := ks\<rparr>)))"

section \<open>\<^verbatim>\<open>_Socket.receive\<close>\<close>

text \<open>The first loop (lines 93 to 97): it stops on an empty packet.\<close>

function recv_prefix :: "bytes \<Rightarrow> 'f endpoint \<Rightarrow> (pyerr + bytes) \<times> 'f endpoint" where
  "recv_prefix data ep =
     (if length data < payload_size then
        (case sock_recv payload_size ep of
           (Inl e, ep1) \<Rightarrow> (Inl e, ep1)
         | (Inr packet, ep1) \<Rightarrow>
             if packet = [] then (Inr data, ep1)
             else recv_prefix (data @ packet) ep1)
      else (Inr data, ep))"
  by pat_completeness auto
termination
  by (relation "measure (\<lambda>(data, ep). payload_size - length data)")
     (auto simp: neq_Nil_conv)

text \<open>
  The second loop (lines 101 to 104): it tests the accumulated \<^verbatim>\<open>data\<close>, not
  the packet just read, and may not terminate; \<open>None\<close> is "does not return".
\<close>

partial_function (option) recv_body ::
  "nat \<Rightarrow> bytes \<Rightarrow> 'f endpoint \<Rightarrow> ((pyerr + bytes) \<times> 'f endpoint) option" where
  "recv_body msg_size data ep =
     (if length data < msg_size then
        (case sock_recv msg_size ep of
           (Inl e, ep1) \<Rightarrow> Some (Inl e, ep1)
         | (Inr packet, ep1) \<Rightarrow>
             if data @ packet = [] then Some (Inr (data @ packet), ep1)
             else recv_body msg_size (data @ packet) ep1)
      else Some (Inr data, ep))"

text \<open>The body of the \<^verbatim>\<open>try\<close> block; \<open>Inl\<close> is an exception raised in it.\<close>

definition receive_try ::
  "'f lib \<Rightarrow> bool \<Rightarrow> 'f endpoint \<Rightarrow> ((pyerr + 'f) \<times> 'f endpoint) option" where
  "receive_try L show ep =
     (case recv_prefix [] ep of
        (Inl e, ep1) \<Rightarrow> Some (Inl e, ep1)
      | (Inr data, ep1) \<Rightarrow>
          (case unpack_Q (native L) (take payload_size data) of
             Inl e \<Rightarrow> Some (Inl e, ep1)
           | Inr msg_size \<Rightarrow>
               (case recv_body msg_size (drop payload_size data) ep1 of
                  None \<Rightarrow> None
                | Some (Inl e, ep2) \<Rightarrow> Some (Inl e, ep2)
                | Some (Inr data2, ep2) \<Rightarrow>
                    (case loads L (take msg_size data2) of
                       None \<Rightarrow> Some (Inl PickleError, ep2)
                     | Some frame \<Rightarrow>
                         if show then
                           (case video_show L (resize L frame (screen_resolution ep2)) ep2 of
                              (Inl e, ep3) \<Rightarrow> Some (Inl e, ep3)
                            | (Inr u, ep3) \<Rightarrow>
                                Some (Inr (resize L frame (screen_resolution ep2)), ep3))
                         else Some (Inr frame, ep2)))))"

text \<open>
  \<^verbatim>\<open>except: pass\<close> catches every exception; the function then ends without a
  \<^verbatim>\<open>return\<close>, so its value is \<^verbatim>\<open>None\<close>.
\<close>

definition receive :: "'f lib \<Rightarrow> bool \<Rightarrow> 'f endpoint \<Rightarrow> ('f pyval \<times> 'f endpoint) option" where
  "receive L show ep =
     (case receive_try L show ep of
        None \<Rightarrow> None
      | Some (Inr frame, ep1) \<Rightarrow> Some (PyTuple True (Some frame), ep1)
      | Some (Inl e, ep1) \<Rightarrow> Some (PyNone, ep1))"

section \<open>\<^verbatim>\<open>_Socket.send\<close>\<close>

text \<open>
  \<^verbatim>\<open>self.video.read()\<close>: the camera yields a frame (\<^verbatim>\<open>(True, frame)\<close>) or
  nothing (\<^verbatim>\<open>(False, None)\<close>).
\<close>

definition video_read :: "'f endpoint \<Rightarrow> (pyerr + 'f option) \<times> 'f endpoint" where
  "video_read ep =
     (case video ep of
        None \<Rightarrow> (Inl AttributeError, ep)
      | Some win_name \<Rightarrow>
          (case camera ep of
             [] \<Rightarrow> (Inr None, ep)
           | c # cs \<Rightarrow> (Inr c, ep\<lparr>camera := cs\<rparr>)))"

definition sock_sendall :: "bytes \<Rightarrow> 'f endpoint \<Rightarrow> (pyerr + unit) \<times> 'f endpoint" where
  "sock_sendall message ep =
     (case client_socket ep of
        None \<Rightarrow> (Inl AttributeError, ep)
      | Some NoneVal \<Rightarrow> (Inl AttributeError, ep)
      | Some sk \<Rightarrow>
          if sk = OwnSock \<and> socket_closed ep then (Inl SocketError, ep)
          else
            (case sendall_ok ep of
               [] \<Rightarrow> (Inr (), ep\<lparr>outgoing := outgoing ep @ [message]\<rparr>)
             | ok # oks \<Rightarrow>
                 if ok then (Inr (), ep\<lparr>outgoing := outgoing ep @ [message], sendall_ok := oks\<rparr>)
                 else (Inl SocketError, ep\<lparr>sendall_ok := oks\<rparr>)))"

text \<open>The body of the \<^verbatim>\<open>try\<close> block of \<^verbatim>\<open>send\<close> (lines 66 to 72).\<close>

definition encode :: "'f lib \<Rightarrow> 'f \<Rightarrow> pyerr + bytes" where
  "encode L frame =
     (case dumps L frame of
        None \<Rightarrow> Inl PickleError
      | Some serialized_frame \<Rightarrow>
          (case pack_Q (native L) (length serialized_frame) of
             Inl e \<Rightarrow> Inl e
           | Inr prefix \<Rightarrow> Inr (prefix @ serialized_frame)))"

definition send_try ::
  "'f lib \<Rightarrow> 'f \<Rightarrow> resolution \<Rightarrow> bool \<Rightarrow> 'f endpoint \<Rightarrow> (pyerr + unit) \<times> 'f endpoint" where
  "send_try L frame res show ep =
     (case encode L (resize L frame res) of
        Inl e \<Rightarrow> (Inl e, ep)
      | Inr message \<Rightarrow>
          if show then
            (case video_show L (resize L (resize L frame res) (screen_resolution ep)) ep of
               (Inl e, ep1) \<Rightarrow> (Inl e, ep1)
             | (Inr u, ep1) \<Rightarrow> sock_sendall message ep1)
          else sock_sendall message ep)"

text \<open>
  \<^verbatim>\<open>frame_check == None\<close> holds exactly when \<^verbatim>\<open>frame\<close> is \<^verbatim>\<open>None\<close>.
  The read of the camera is outside the \<^verbatim>\<open>try\<close>; everything raised inside it
  is dropped, and the function returns \<^verbatim>\<open>None\<close>.
\<close>

definition send ::
  "'f lib \<Rightarrow> 'f option \<Rightarrow> resolution \<Rightarrow> bool \<Rightarrow> 'f endpoint \<Rightarrow> (pyerr + 'f pyval) \<times> 'f endpoint" where
  "send L frame res show ep =
     (if capture_video ep \<and> frame = None then
        (case video_read ep of
           (Inl e, ep1) \<Rightarrow> (Inl e, ep1)
         | (Inr None, ep1) \<Rightarrow> (Inr PyNone, ep1)
         | (Inr (Some f), ep1) \<Rightarrow> (Inr PyNone, snd (send_try L f res show ep1)))
      else
        (case frame of
           Some f \<Rightarrow> (Inr PyNone, snd (send_try L f res show ep))
         | None \<Rightarrow> (Inr PyNone, ep)))"

section \<open>\<^verbatim>\<open>_Socket.is_connected\<close> and \<^verbatim>\<open>_Socket.close\<close>\<close>

text \<open>A socket object is true; the attribute may be unbound or hold \<^verbatim>\<open>None\<close>.\<close>

definition is_connected :: "'f endpoint \<Rightarrow> pyerr + bool" where
  "is_connected ep =
     (case client_socket ep of
        None \<Rightarrow> Inl AttributeError
      | Some NoneVal \<Rightarrow> Inr False
      | Some sk \<Rightarrow> Inr True)"

text \<open>
  \<^verbatim>\<open>self.socket.close()\<close>, then \<^verbatim>\<open>Video.stop()\<close> with its exceptions dropped,
  then the log line, whose argument reads \<^verbatim>\<open>self.socket_type\<close>.
\<close>

definition close :: "'f endpoint \<Rightarrow> (pyerr + 'f pyval) \<times> 'f endpoint" where
  "close ep =
     (let ep1 = ep\<lparr>socket_closed := True\<rparr> in
      case socket_type ep1 of
        None \<Rightarrow> (Inl AttributeError, ep1)
      | Some t \<Rightarrow> (Inr PyNone, ep1))"

section \<open>The constructors\<close>

text \<open>
  \<^verbatim>\<open>_Socket.__init__\<close> binds \<^verbatim>\<open>video\<close> only when \<^verbatim>\<open>capture_video\<close> is true
  and never binds \<^verbatim>\<open>socket_type\<close>; no other code of the package binds it. The
  record \<open>env\<close> supplies the environment. \<^verbatim>\<open>Server.__init__\<close> leaves
  \<^verbatim>\<open>client_socket\<close> unbound, \<^verbatim>\<open>Client.__init__\<close> binds it to the endpoint's
  own socket. The video source is taken to open: \<^verbatim>\<open>Video.__init__\<close> ends the
  process otherwise.
\<close>

definition Socket_init :: "string \<Rightarrow> bool \<Rightarrow> resolution \<Rightarrow> 'f endpoint \<Rightarrow> 'f endpoint" where
  "Socket_init name cv res env =
     env\<lparr>capture_video := cv, screen_resolution := res, timed_out := False,
         video := (if cv then Some name else None), client_socket := None,
         socket_type := None, socket_closed := False, socket_bound := False,
         socket_timeout := None\<rparr>"

definition Server_init :: "string \<Rightarrow> bool \<Rightarrow> resolution \<Rightarrow> 'f endpoint \<Rightarrow> 'f endpoint" where
  "Server_init name cv res env = Socket_init name cv res env"

definition Client_init :: "string \<Rightarrow> bool \<Rightarrow> resolution \<Rightarrow> 'f endpoint \<Rightarrow> 'f endpoint" where
  "Client_init name cv res env = (Socket_init name cv res env)\<lparr>client_socket := Some OwnSock\<rparr>"

section \<open>\<^verbatim>\<open>Server.connect\<close> and \<^verbatim>\<open>Client.connect\<close>\<close>

text \<open>
  \<^verbatim>\<open>_set_port\<close>: the prompt is built from \<^verbatim>\<open>self.socket_type\<close> before
  \<^verbatim>\<open>input\<close> is called. The loop reads lines until one has four characters and
  \<^verbatim>\<open>int\<close> accepts it; \<^verbatim>\<open>input\<close> raises at the end of the input.
\<close>

fun set_port_loop :: "'f lib \<Rightarrow> string list \<Rightarrow> (pyerr + int) \<times> string list" where
  "set_port_loop L [] = (Inl EOFError, [])"
| "set_port_loop L (port # rest) =
     (if length port = 4 then
        (case py_int L port of
           Some n \<Rightarrow> (Inr n, rest)
         | None \<Rightarrow> set_port_loop L rest)
      else set_port_loop L rest)"

definition set_port :: "'f lib \<Rightarrow> 'f endpoint \<Rightarrow> (pyerr + int) \<times> 'f endpoint" where
  "set_port L ep =
     (case socket_type ep of
        None \<Rightarrow> (Inl AttributeError, ep)
      | Some t \<Rightarrow>
          (case set_port_loop L (stdin ep) of (r, rest) \<Rightarrow> (r, ep\<lparr>stdin := rest\<rparr>)))"

definition set_ip :: "'f endpoint \<Rightarrow> (pyerr + string) \<times> 'f endpoint" where
  "set_ip ep =
     (case socket_type ep of
        None \<Rightarrow> (Inl AttributeError, ep)
      | Some t \<Rightarrow>
          (case stdin ep of
             [] \<Rightarrow> (Inl EOFError, ep)
           | line # rest \<Rightarrow> (Inr line, ep\<lparr>stdin := rest\<rparr>)))"

text \<open>The calls on the endpoint's own socket. A closed socket refuses every call.\<close>

definition settimeout :: "int \<Rightarrow> 'f endpoint \<Rightarrow> (pyerr + unit) \<times> 'f endpoint" where
  "settimeout t ep =
     (if t < 0 then (Inl ValueError, ep)
      else if socket_closed ep then (Inl SocketError, ep)
      else (Inr (), ep\<lparr>socket_timeout := Some t\<rparr>))"

definition sock_bind :: "int \<Rightarrow> 'f endpoint \<Rightarrow> (pyerr + unit) \<times> 'f endpoint" where
  "sock_bind port ep =
     (if port < 0 \<or> 65535 < port then (Inl OverflowError, ep)
      else if socket_closed ep \<or> socket_bound ep \<or> \<not> port_free ep then (Inl SocketError, ep)
      else (Inr (), ep\<lparr>socket_bound := True, effects := effects ep @ [Binding]\<rparr>))"

definition sock_listen :: "'f endpoint \<Rightarrow> (pyerr + unit) \<times> 'f endpoint" where
  "sock_listen ep =
     (if socket_closed ep then (Inl SocketError, ep)
      else (Inr (), ep\<lparr>effects := effects ep @ [Listening]\<rparr>))"

text \<open>
  One call of \<^verbatim>\<open>accept\<close>: it is the attempt number \<open>attempts ep\<close>, and the
  environment says whether a peer connects in it.
\<close>

definition sock_accept :: "'f endpoint \<Rightarrow> (pyerr + unit) \<times> 'f endpoint" where
  "sock_accept ep =
     (let ep1 = ep\<lparr>attempts := Suc (attempts ep), effects := effects ep @ [Accepting]\<rparr> in
      if \<not> socket_closed ep \<and> peer_ready ep (attempts ep) then (Inr (), ep1)
      else (Inl SocketError, ep1))"

definition sleep :: "nat \<Rightarrow> 'f endpoint \<Rightarrow> 'f endpoint" where
  "sleep secs ep = ep\<lparr>effects := effects ep @ [Sleeping secs]\<rparr>"

text \<open>
  Lines 181 to 189: unless \<^verbatim>\<open>timed_out\<close>, a port that is \<^verbatim>\<open>None\<close> or
  \<^verbatim>\<open>0\<close> is asked for, and the socket is bound; a failure of \<^verbatim>\<open>bind\<close> is
  raised again.
\<close>

definition port_or_ask :: "'f lib \<Rightarrow> int option \<Rightarrow> 'f endpoint \<Rightarrow> (pyerr + int) \<times> 'f endpoint" where
  "port_or_ask L port ep =
     (case port of
        None \<Rightarrow> set_port L ep
      | Some p \<Rightarrow> if p = 0 then set_port L ep else (Inr p, ep))"

definition server_bind ::
  "'f lib \<Rightarrow> int option \<Rightarrow> 'f endpoint \<Rightarrow> (pyerr + int option) \<times> 'f endpoint" where
  "server_bind L port ep =
     (case port_or_ask L port ep of
        (Inl e, ep1) \<Rightarrow> (Inl e, ep1)
      | (Inr p, ep1) \<Rightarrow>
          (case sock_bind p ep1 of
             (Inl e, ep2) \<Rightarrow> (Inl e, ep2)
           | (Inr u, ep2) \<Rightarrow> (Inr (Some p), ep2)))"

text \<open>
  \<^verbatim>\<open>Server.connect\<close>. \<^verbatim>\<open>blocking\<close> is \<^verbatim>\<open>timeout == 0\<close>. The call of itself
  in the handler is the last statement, and the method returns \<^verbatim>\<open>None\<close>.
\<close>

partial_function (option) server_connect ::
  "'f lib \<Rightarrow> int option \<Rightarrow> int \<Rightarrow> 'f endpoint \<Rightarrow> ((pyerr + 'f pyval) \<times> 'f endpoint) option" where
  "server_connect L port timeout ep =
     (case (if timeout = 0 then (Inr (), ep) else settimeout timeout ep) of
        (Inl e, ep1) \<Rightarrow> Some (Inl e, ep1)
      | (Inr u, ep1) \<Rightarrow>
          (case (if \<not> timed_out ep1 then server_bind L port ep1 else (Inr port, ep1)) of
             (Inl e, ep2) \<Rightarrow> Some (Inl e, ep2)
           | (Inr port2, ep2) \<Rightarrow>
               (case sock_listen ep2 of
                  (Inl e, ep3) \<Rightarrow> Some (Inl e, ep3)
                | (Inr u, ep3) \<Rightarrow>
                    (case sock_accept ep3 of
                       (Inr u, ep4) \<Rightarrow> Some (Inr PyNone, ep4\<lparr>client_socket := Some PeerSock\<rparr>)
                     | (Inl e, ep4) \<Rightarrow>
                         if timeout \<noteq> 0 then Some (Inr PyNone, ep4\<lparr>timed_out := True\<rparr>)
                         else server_connect L port2 timeout
                                (sleep 1 (ep4\<lparr>timed_out := True\<rparr>))))))"

text \<open>\<^verbatim>\<open>Client.connect\<close>: the calls go to \<^verbatim>\<open>self.client_socket\<close>.\<close>

definition client_settimeout :: "int \<Rightarrow> 'f endpoint \<Rightarrow> (pyerr + unit) \<times> 'f endpoint" where
  "client_settimeout t ep =
     (case client_socket ep of
        None \<Rightarrow> (Inl AttributeError, ep)
      | Some NoneVal \<Rightarrow> (Inl AttributeError, ep)
      | Some OwnSock \<Rightarrow> settimeout t ep
      | Some PeerSock \<Rightarrow> if t < 0 then (Inl ValueError, ep) else (Inr (), ep))"

definition host_or_ask :: "string option \<Rightarrow> 'f endpoint \<Rightarrow> (pyerr + string) \<times> 'f endpoint" where
  "host_or_ask host_ip ep =
     (case host_ip of
        None \<Rightarrow> set_ip ep
      | Some h \<Rightarrow> if h = [] then set_ip ep else (Inr h, ep))"

definition client_ask ::
  "'f lib \<Rightarrow> string option \<Rightarrow> int option \<Rightarrow> 'f endpoint \<Rightarrow>
   (pyerr + string option \<times> int option) \<times> 'f endpoint" where
  "client_ask L host_ip port ep =
     (case host_or_ask host_ip ep of
        (Inl e, ep1) \<Rightarrow> (Inl e, ep1)
      | (Inr h, ep1) \<Rightarrow>
          (case port_or_ask L port ep1 of
             (Inl e, ep2) \<Rightarrow> (Inl e, ep2)
           | (Inr p, ep2) \<Rightarrow> (Inr (Some h, Some p), ep2)))"

text \<open>
  One call of \<^verbatim>\<open>self.client_socket.connect((host_ip, port))\<close>: attempt number
  \<open>attempts ep\<close>. It raises when the attribute holds no socket, the socket is closed,
  the address is not a host and a port, or no peer answers.
\<close>

definition sock_dial ::
  "string option \<Rightarrow> int option \<Rightarrow> 'f endpoint \<Rightarrow> (pyerr + unit) \<times> 'f endpoint" where
  "sock_dial host_ip port ep =
     (let ep1 = ep\<lparr>attempts := Suc (attempts ep), effects := effects ep @ [Dialing]\<rparr> in
      case client_socket ep of
        None \<Rightarrow> (Inl AttributeError, ep1)
      | Some NoneVal \<Rightarrow> (Inl AttributeError, ep1)
      | Some sk \<Rightarrow>
          (case (host_ip, port) of
             (Some h, Some p) \<Rightarrow>
               if p < 0 \<or> 65535 < p then (Inl OverflowError, ep1)
               else if (sk = OwnSock \<and> socket_closed ep) \<or> \<not> peer_ready ep (attempts ep)
               then (Inl SocketError, ep1)
               else (Inr (), ep1)
           | _ \<Rightarrow> (Inl TypeError, ep1)))"

text \<open>
  The value of the call of itself in the handler is discarded: the method then ends
  and returns \<^verbatim>\<open>None\<close>; an exception of the inner call propagates.
\<close>

partial_function (option) client_connect ::
  "'f lib \<Rightarrow> string option \<Rightarrow> int option \<Rightarrow> int \<Rightarrow> 'f endpoint \<Rightarrow>
   ((pyerr + 'f pyval) \<times> 'f endpoint) option" where
  "client_connect L host_ip port timeout ep =
     (case (if timeout = 0 then (Inr (), ep) else client_settimeout timeout ep) of
        (Inl e, ep1) \<Rightarrow> Some (Inl e, ep1)
      | (Inr u, ep1) \<Rightarrow>
          (case (if \<not> timed_out ep1 then client_ask L host_ip port ep1
                 else (Inr (host_ip, port), ep1)) of
             (Inl e, ep2) \<Rightarrow> Some (Inl e, ep2)
           | (Inr (host2, port2), ep2) \<Rightarrow>
               (case sock_dial host2 port2 ep2 of
                  (Inr u, ep3) \<Rightarrow> Some (Inr (PyBool True), ep3)
                | (Inl e, ep3) \<Rightarrow>
                    if timeout \<noteq> 0 then Some (Inr PyNone, ep3\<lparr>timed_out := True\<rparr>)
                    else
                      Option.bind
                        (client_connect L host2 port2 timeout
                           (sleep 1 (ep3\<lparr>timed_out := True\<rparr>)))
                        (\<lambda>(r, ep4).
                           Some ((case r of Inl e \<Rightarrow> Inl e | Inr v \<Rightarrow> Inr PyNone), ep4)))))"

section \<open>The pump loops \<^verbatim>\<open>Server.start\<close> and \<^verbatim>\<open>Client.start\<close>\<close>

text \<open>
  \<^verbatim>\<open>receiving, _ = self.receive(show=True)\<close> unpacks the value of
  \<^verbatim>\<open>receive\<close>; a value that is no pair raises \<^verbatim>\<open>TypeError\<close>. The calls of
  \<^verbatim>\<open>send\<close> take the defaults \<^verbatim>\<open>frame=None\<close> and
  \<^verbatim>\<open>resolution=(640, 480)\<close>.
\<close>

partial_function (option) server_start ::
  "'f lib \<Rightarrow> 'f endpoint \<Rightarrow> ((pyerr + 'f pyval) \<times> 'f endpoint) option" where
  "server_start L ep =
     (case is_connected ep of
        Inl e \<Rightarrow> Some (Inl e, ep)
      | Inr connected \<Rightarrow>
          if \<not> connected then Some (Inr PyNone, ep)
          else
            Option.bind (receive L True ep)
              (\<lambda>(r, ep1).
                 case r of
                   PyTuple receiving fr \<Rightarrow>
                     if receiving then
                       (case send L None (Res 640 480) False ep1 of
                          (Inl e, ep2) \<Rightarrow> Some (Inl e, ep2)
                        | (Inr v, ep2) \<Rightarrow> server_start L ep2)
                     else server_start L ep1
                 | PyNone \<Rightarrow> Some (Inl TypeError, ep1)
                 | PyBool b \<Rightarrow> Some (Inl TypeError, ep1)))"

partial_function (option) client_start ::
  "'f lib \<Rightarrow> 'f endpoint \<Rightarrow> ((pyerr + 'f pyval) \<times> 'f endpoint) option" where
  "client_start L ep =
     (case is_connected ep of
        Inl e \<Rightarrow> Some (Inl e, ep)
      | Inr connected \<Rightarrow>
          if \<not> connected then Some (Inr PyNone, ep)
          else
            (case send L None (Res 640 480) False ep of
               (Inl e, ep1) \<Rightarrow> Some (Inl e, ep1)
             | (Inr v, ep1) \<Rightarrow>
                 Option.bind (receive L True ep1)
                   (\<lambda>(r, ep2).
                      case r of
                        PyTuple receiving fr \<Rightarrow>
                          if \<not> receiving then Some (Inr PyNone, ep2)
                          else client_start L ep2
                      | PyNone \<Rightarrow> Some (Inl TypeError, ep2)
                      | PyBool b \<Rightarrow> Some (Inl TypeError, ep2))))"

section \<open>The operations of an endpoint\<close>

datatype 'f operation =
    Send "'f option" resolution bool
  | Receive bool
  | IsConnected
  | Close
  | ServerConnect "int option" int
  | ClientConnect "string option" "int option" int
  | ServerStart
  | ClientStart

text \<open>
  One call of a method: \<open>None\<close> when it does not return, else its value or its
  exception, and the endpoint as the call leaves it.
\<close>

definition call ::
  "'f lib \<Rightarrow> 'f operation \<Rightarrow> 'f endpoint \<Rightarrow> ((pyerr + 'f pyval) \<times> 'f endpoint) option" where
  "call L op ep =
     (case op of
        Send frame res show \<Rightarrow> Some (send L frame res show ep)
      | Receive show \<Rightarrow>
          Option.bind (receive L show ep) (\<lambda>(r, ep1). Some (Inr r, ep1))
      | IsConnected \<Rightarrow>
          (case is_connected ep of
             Inl e \<Rightarrow> Some (Inl e, ep)
           | Inr b \<Rightarrow> Some (Inr (PyBool b), ep))
      | Close \<Rightarrow> Some (close ep)
      | ServerConnect port timeout \<Rightarrow> server_connect L port timeout ep
      | ClientConnect host_ip port timeout \<Rightarrow> client_connect L host_ip port timeout ep
      | ServerStart \<Rightarrow> server_start L ep
      | ClientStart \<Rightarrow> client_start L ep)"

fun calls :: "'f lib \<Rightarrow> 'f operation list \<Rightarrow> 'f endpoint \<Rightarrow> 'f endpoint option" where
  "calls L [] ep = Some ep"
| "calls L (op # ops) ep = Option.bind (call L op ep) (\<lambda>(r, ep1). calls L ops ep1)"

section \<open>Predicates used in the statements\<close>

text \<open>
  The state in which the second loop of \<^verbatim>\<open>receive\<close> makes no progress: the
  next \<^verbatim>\<open>recv\<close> returns \<^verbatim>\<open>b""\<close> and changes nothing, while
  \<^verbatim>\<open>data\<close> is not empty and still shorter than \<^verbatim>\<open>msg_size\<close>.
\<close>

definition spinning :: "nat \<Rightarrow> bytes \<Rightarrow> 'f endpoint \<Rightarrow> bool" where
  "spinning m data ep = (sock_recv m ep = (Inr [], ep) \<and> data \<noteq> [] \<and> length data < m)"

text \<open>
  The attributes of the Python object, which a caller can read; the rest of the
  record is the environment.
\<close>

definition attributes ::
  "'f endpoint \<Rightarrow> bool \<times> resolution \<times> bool \<times> string option \<times> pysock option \<times> string option" where
  "attributes ep =
     (capture_video ep, screen_resolution ep, timed_out ep, video ep, client_socket ep,
      socket_type ep)"

text \<open>
  \<^verbatim>\<open>self.client_socket\<close> holds a socket that is not closed: the accepted one,
  which no method closes, or the endpoint's own while \<^verbatim>\<open>close\<close> was not called.
\<close>

definition readable :: "'f endpoint \<Rightarrow> bool" where
  "readable ep =
     (client_socket ep = Some PeerSock \<or>
      (client_socket ep = Some OwnSock \<and> \<not> socket_closed ep))"



text \<open>
  \<^verbatim>\<open>bind\<close> will succeed: the port is given and in range, the socket is open
  and not bound yet, and the port is free.
\<close>

definition can_bind :: "int option \<Rightarrow> 'f endpoint \<Rightarrow> bool" where
  "can_bind port ep =
     (case port of
        None \<Rightarrow> False
      | Some p \<Rightarrow>
          0 < p \<and> p \<le> 65535 \<and> \<not> socket_closed ep \<and> \<not> socket_bound ep \<and> port_free ep)"





section \<open>Fixtures for the concrete evaluations\<close>

text \<open>
  A library whose frames are byte strings pickled as themselves, an environment with
  nothing pending, and a client and a server built from it by the constructors.
\<close>

definition raw_lib :: "bytes lib" where
  "raw_lib =
     \<lparr>dumps = (\<lambda>f. Some f), loads = (\<lambda>b. if b = [] then None else Some b),
      cv_resize = (\<lambda>f r. Some f), imshow_ok = (\<lambda>f. True),
      py_int = (\<lambda>s. None), native = Little\<rparr>"

definition quiet_env :: "bytes endpoint" where
  "quiet_env =
     \<lparr>capture_video = False, screen_resolution = Res 640 480, timed_out = False,
      video = None, client_socket = None, socket_type = None, socket_closed = False,
      socket_bound = False, socket_timeout = None, incoming = [], outgoing = [],
      sendall_ok = [], camera = [], escape_key = [], displayed = [], stdin = [],
      port_free = True, peer_ready = (\<lambda>n. False), attempts = 0, effects = []\<rparr>"

definition a_client :: "bytes endpoint" where
  "a_client = Client_init ''Client'' False (Res 640 480) quiet_env"

definition a_server :: "bytes endpoint" where
  "a_server = Server_init ''Server'' False (Res 640 480) quiet_env"

section \<open>Unfolding the loops\<close>

declare recv_prefix.simps [simp del]

lemma recv_prefix_done:
  "\<not> length data < payload_size \<Longrightarrow> recv_prefix data ep = (Inr data, ep)"
  by (subst recv_prefix.simps) simp

lemma recv_prefix_step:
  "length data < payload_size \<Longrightarrow>
   recv_prefix data ep =
     (case sock_recv payload_size ep of
        (Inl e, ep1) \<Rightarrow> (Inl e, ep1)
      | (Inr packet, ep1) \<Rightarrow>
          if packet = [] then (Inr data, ep1) else recv_prefix (data @ packet) ep1)"
  by (subst recv_prefix.simps) simp

lemma recv_body_done:
  "\<not> length data < m \<Longrightarrow> recv_body m data ep = Some (Inr data, ep)"
  by (subst recv_body.simps) simp

lemma recv_body_step:
  "length data < m \<Longrightarrow>
   recv_body m data ep =
     (case sock_recv m ep of
        (Inl e, ep1) \<Rightarrow> Some (Inl e, ep1)
      | (Inr packet, ep1) \<Rightarrow>
          if data @ packet = [] then Some (Inr (data @ packet), ep1)
          else recv_body m (data @ packet) ep1)"
  by (subst recv_body.simps) simp

section \<open>The length prefix\<close>

lemma le_bytes_numeral:
  "le_bytes (numeral k) n = of_nat (n mod 256) # le_bytes (pred_numeral k) (n div 256)"
  by (simp only: numeral_eq_Suc le_bytes.simps)

lemma length_le_bytes: "length (le_bytes k n) = k"
  by (induction k arbitrary: n) simp_all

lemma unat_byte_of_nat: "unat (of_nat (n mod 256) :: byte) = n mod 256"
  by (simp add: unat_of_nat)

lemma le_nat_le_bytes: "le_nat (le_bytes k n) = n mod 256 ^ k"
proof (induction k arbitrary: n)
  case 0
  show ?case by simp
next
  case (Suc k)
  have "le_nat (le_bytes (Suc k) n) = n mod 256 + 256 * (n div 256 mod 256 ^ k)"
    by (simp add: Suc unat_byte_of_nat)
  also have "\<dots> = n mod (256 * 256 ^ k)"
    by (simp add: mod_mult2_eq)
  finally show ?case by simp
qed

lemma pack_Q_length: "pack_Q bo n = Inr prefix \<Longrightarrow> length prefix = payload_size"
  by (auto simp: pack_Q_def length_le_bytes split: if_splits byteorder.splits)

lemma unpack_pack_Q: "pack_Q bo n = Inr prefix \<Longrightarrow> unpack_Q bo prefix = Inr n"
  by (auto simp: pack_Q_def unpack_Q_def length_le_bytes le_nat_le_bytes payload_size_def
      split: if_splits byteorder.splits)

lemma pack_Q_Little:
  "n < 2 ^ 64 \<Longrightarrow> pack_Q Little n = Inr (le_bytes 8 n)"
  by (simp add: pack_Q_def payload_size_def)

section \<open>The payload loop that does not return\<close>

lemma recv_body_returns_not_spinning:
  assumes "recv_body m data ep = Some y"
  shows "\<not> spinning m data ep"
proof (rule recv_body.raw_induct
    [where P = "\<lambda>m data ep y. \<not> spinning m data ep", OF _ assms])
  fix f :: "nat \<Rightarrow> bytes \<Rightarrow> 'a endpoint \<Rightarrow> ((pyerr + bytes) \<times> 'a endpoint) option"
  fix m data ep y
  assume IH: "\<And>m data ep y. f m data ep = Some y \<Longrightarrow> \<not> spinning m data ep"
  assume step: "(if length data < m then
        (case sock_recv m ep of
           (Inl e, ep1) \<Rightarrow> Some (Inl e, ep1)
         | (Inr packet, ep1) \<Rightarrow>
             if data @ packet = [] then Some (Inr (data @ packet), ep1)
             else f m (data @ packet) ep1)
      else Some (Inr data, ep)) = Some y"
  show "\<not> spinning m data ep"
  proof
    assume h: "spinning m data ep"
    with step have "f m data ep = Some y" by (simp add: spinning_def)
    from IH[OF this] h show False by simp
  qed
qed

lemma recv_body_spins: "spinning m data ep \<Longrightarrow> recv_body m data ep = None"
  using recv_body_returns_not_spinning [of m data ep] by (cases "recv_body m data ep") auto

lemma payload_size_le_ssize_max [simp]: "8 \<le> ssize_max"
  by (simp add: ssize_max_def)

lemma sock_recv_peer:
  "client_socket ep = Some PeerSock \<Longrightarrow> n \<le> ssize_max \<Longrightarrow>
   sock_recv n ep = (case recv n (incoming ep) of (r, ds) \<Rightarrow> (r, ep\<lparr>incoming := ds\<rparr>))"
  by (simp add: sock_recv_def)

lemma sock_recv_readable:
  "readable ep \<Longrightarrow> n \<le> ssize_max \<Longrightarrow>
   sock_recv n ep = (case recv n (incoming ep) of (r, ds) \<Rightarrow> (r, ep\<lparr>incoming := ds\<rparr>))"
  by (auto simp: sock_recv_def readable_def)

lemma readable_incoming [simp]: "readable (ep\<lparr>incoming := ds\<rparr>) = readable ep"
  by (simp add: readable_def)

section \<open>\<^verbatim>\<open>receive\<close> changes no attribute\<close>

lemma sock_recv_attributes: "sock_recv n ep = (r, ep') \<Longrightarrow> attributes ep' = attributes ep"
  by (auto simp: sock_recv_def attributes_def
      split: option.splits pysock.splits if_splits prod.splits)

lemma recv_prefix_attributes:
  "recv_prefix data ep = (r, ep') \<Longrightarrow> attributes ep' = attributes ep"
proof (induction data ep rule: recv_prefix.induct)
  case (1 data ep)
  show ?case
  proof (cases "length data < payload_size")
    case False
    with "1.prems" show ?thesis by (simp add: recv_prefix_done)
  next
    case True
    obtain r1 ep1 where s: "sock_recv payload_size ep = (r1, ep1)"
      by (cases "sock_recv payload_size ep")
    have v1: "attributes ep1 = attributes ep" using s by (rule sock_recv_attributes)
    show ?thesis
    proof (cases r1)
      case (Inl e)
      with "1.prems" True s v1 show ?thesis by (simp add: recv_prefix_step)
    next
      case (Inr packet)
      show ?thesis
      proof (cases "packet = []")
        case True
        with "1.prems" \<open>length data < payload_size\<close> s v1 Inr show ?thesis
          by (simp add: recv_prefix_step)
      next
        case False
        with "1.prems" \<open>length data < payload_size\<close> s Inr
        have "recv_prefix (data @ packet) ep1 = (r, ep')" by (simp add: recv_prefix_step)
        from "1.IH"[OF \<open>length data < payload_size\<close> s[symmetric] Inr False this] v1
        show ?thesis by simp
      qed
    qed
  qed
qed

lemma recv_body_attributes:
  assumes "recv_body m data ep = Some y"
  shows "attributes (snd y) = attributes ep"
proof (rule recv_body.raw_induct
    [where P = "\<lambda>m data ep y. attributes (snd y) = attributes ep", OF _ assms])
  fix f :: "nat \<Rightarrow> bytes \<Rightarrow> 'a endpoint \<Rightarrow> ((pyerr + bytes) \<times> 'a endpoint) option"
  fix m data ep y
  assume IH: "\<And>m data ep y. f m data ep = Some y \<Longrightarrow> attributes (snd y) = attributes ep"
  assume step: "(if length data < m then
        (case sock_recv m ep of
           (Inl e, ep1) \<Rightarrow> Some (Inl e, ep1)
         | (Inr packet, ep1) \<Rightarrow>
             if data @ packet = [] then Some (Inr (data @ packet), ep1)
             else f m (data @ packet) ep1)
      else Some (Inr data, ep)) = Some y"
  obtain r1 ep1 where s: "sock_recv m ep = (r1, ep1)" by (cases "sock_recv m ep")
  have v1: "attributes ep1 = attributes ep" using s by (rule sock_recv_attributes)
  from step v1 show "attributes (snd y) = attributes ep"
    unfolding s by (cases r1) (auto split: if_splits dest: IH)
qed

lemma video_show_attributes:
  "video_show L f ep = (r, ep') \<Longrightarrow> attributes ep' = attributes ep"
  by (auto simp: video_show_def attributes_def Let_def
      split: option.splits if_splits list.splits)


lemma receive_try_attributes:
  assumes "receive_try L show ep = Some (r, ep')"
  shows "attributes ep' = attributes ep"
  using assms
  by (auto simp: receive_try_def split: prod.splits sum.splits option.splits if_splits
      dest!: recv_prefix_attributes recv_body_attributes video_show_attributes)

lemma receive_attributes:
  "receive L show ep = Some (r, ep') \<Longrightarrow> attributes ep' = attributes ep"
  by (auto simp: receive_def split: prod.splits sum.splits option.splits
      dest: receive_try_attributes)


section \<open>A whole message in one segment\<close>

lemma receive_try_whole_message:
  assumes sock: "readable ep"
    and inc: "incoming ep = Chunk (prefix @ payload @ trailing) # rest"
    and pk: "pack_Q (native L) (length payload) = Inr prefix"
    and ne: "payload \<noteq> []" and fits: "length payload \<le> ssize_max"
  shows "receive_try L show ep =
     (case loads L payload of
        None \<Rightarrow> Some (Inl PickleError,
                 ep\<lparr>incoming := (if trailing = [] then rest else Chunk trailing # rest)\<rparr>)
      | Some frame \<Rightarrow>
          if show then
            (case video_show L (resize L frame (screen_resolution ep))
                    (ep\<lparr>incoming := (if trailing = [] then rest else Chunk trailing # rest)\<rparr>) of
               (Inl e, ep3) \<Rightarrow> Some (Inl e, ep3)
             | (Inr u, ep3) \<Rightarrow> Some (Inr (resize L frame (screen_resolution ep)), ep3))
          else Some (Inr frame,
                 ep\<lparr>incoming := (if trailing = [] then rest else Chunk trailing # rest)\<rparr>))"
proof -
  let ?ep1 = "ep\<lparr>incoming := Chunk (payload @ trailing) # rest\<rparr>"
  let ?ep2 = "ep\<lparr>incoming := (if trailing = [] then rest else Chunk trailing # rest)\<rparr>"
  have len: "length prefix = payload_size" using pk by (rule pack_Q_length)
  have un: "unpack_Q (native L) prefix = Inr (length payload)" using pk by (rule unpack_pack_Q)
  have p0: "recv_prefix [] ep = (Inr prefix, ?ep1)"
    using len ne sock inc
    by (simp add: recv_prefix_step recv_prefix_done sock_recv_readable payload_size_def)
  have pos: "length ([]::bytes) < length payload" using ne by simp
  have b1: "recv_body (length payload) [] ?ep1 = Some (Inr payload, ?ep2)"
    unfolding recv_body_step[OF pos]
    using ne sock fits by (simp add: sock_recv_readable recv_body_done)
  show ?thesis
    using len
    by (simp add: receive_try_def p0 un b1 split: option.splits prod.splits sum.splits)
qed


section \<open>What \<^verbatim>\<open>receive\<close> returns on a failure\<close>

lemma receive_never_False: "receive L show ep \<noteq> Some (PyTuple False fr, ep')"
  by (auto simp: receive_def split: option.splits prod.splits sum.splits)

lemma receive_peer_closed:
  "receive L show (ep\<lparr>client_socket := Some PeerSock, incoming := []\<rparr>) =
     Some (PyNone, ep\<lparr>client_socket := Some PeerSock, incoming := []\<rparr>)"
  by (simp add: receive_def receive_try_def recv_prefix_step recv_prefix_done sock_recv_peer
      unpack_Q_def payload_size_def)

lemma receive_recv_fails:
  "receive L show (ep\<lparr>client_socket := Some PeerSock, incoming := Fault # ds\<rparr>) =
     Some (PyNone, ep\<lparr>client_socket := Some PeerSock, incoming := ds\<rparr>)"
  by (simp add: receive_def receive_try_def recv_prefix_step sock_recv_peer payload_size_def)

text \<open>
  C1. The docstring of \<^verbatim>\<open>receive\<close> promises \<^verbatim>\<open>(False, None)\<close> on a failure.
  The code never returns a pair whose first component is false: after
  \<^verbatim>\<open>except: pass\<close> the function ends and its value is \<^verbatim>\<open>None\<close>. So it is
  when the peer has closed the stream and when the next \<^verbatim>\<open>recv\<close> fails (a
  timeout).
\<close>

theorem receive_failure_is_None:
  "receive L show ep \<noteq> Some (PyTuple False fr, ep') \<and>
   receive L show (ep\<lparr>client_socket := Some PeerSock, incoming := []\<rparr>) =
     Some (PyNone, ep\<lparr>client_socket := Some PeerSock, incoming := []\<rparr>) \<and>
   receive L show (ep\<lparr>client_socket := Some PeerSock, incoming := Fault # ds\<rparr>) =
     Some (PyNone, ep\<lparr>client_socket := Some PeerSock, incoming := ds\<rparr>)"
  by (intro conjI receive_never_False receive_peer_closed receive_recv_fails)

text \<open>
  C2. A stream that delivers the length prefix of a message of \<open>n\<close> bytes
  (\<open>n\<close> a size that \<^verbatim>\<open>recv\<close> accepts), then at least one and fewer than
  \<open>n\<close> bytes of payload, and is then closed by the peer: \<^verbatim>\<open>receive\<close> does not return. The second loop tests \<^verbatim>\<open>not data\<close>
  where the first tests \<^verbatim>\<open>not packet\<close>, so the empty packets of the closed
  stream never end it.
\<close>

theorem receive_short_payload_never_returns:
  assumes pk: "pack_Q (native L) n = Inr prefix"
    and ne: "payload \<noteq> []" and short: "length payload < n" and fits: "n \<le> ssize_max"
  shows "receive L show (ep\<lparr>client_socket := Some PeerSock,
           incoming := [Chunk (prefix @ payload)]\<rparr>) = None"
proof -
  let ?ep0 = "ep\<lparr>client_socket := Some PeerSock, incoming := [Chunk (prefix @ payload)]\<rparr>"
  let ?ep1 = "ep\<lparr>client_socket := Some PeerSock, incoming := [Chunk payload]\<rparr>"
  let ?ep2 = "ep\<lparr>client_socket := Some PeerSock, incoming := []\<rparr>"
  have len: "length prefix = payload_size" using pk by (rule pack_Q_length)
  have un: "unpack_Q (native L) prefix = Inr n" using pk by (rule unpack_pack_Q)
  have p0: "recv_prefix [] ?ep0 = (Inr prefix, ?ep1)"
    using len ne
    by (simp add: recv_prefix_step recv_prefix_done sock_recv_peer payload_size_def)
  have s2: "spinning n payload ?ep2"
    using ne short fits by (simp add: spinning_def sock_recv_peer)
  have pos: "length ([]::bytes) < n" using short by simp
  have b1: "recv_body n [] ?ep1 = None"
    unfolding recv_body_step[OF pos]
    using ne short fits recv_body_spins[OF s2]
    by (simp add: sock_recv_peer)
  show ?thesis
    using len by (simp add: receive_def receive_try_def p0 un b1)
qed

text \<open>
  The scenario of the specification: a prefix that announces 10 MB, four bytes of
  payload, and the stream is closed.
\<close>

theorem receive_short_payload_never_returns_witness:
  "pack_Q (native raw_lib) 10485760 = Inr [0, 0, 160, 0, 0, 0, 0, 0] \<and>
   [1, 2, 3, 4 :: byte] \<noteq> [] \<and> length [1, 2, 3, 4 :: byte] < 10485760 \<and>
   10485760 \<le> ssize_max \<and>
   receive raw_lib True (a_server\<lparr>client_socket := Some PeerSock,
       incoming := [Chunk ([0, 0, 160, 0, 0, 0, 0, 0] @ [1, 2, 3, 4])]\<rparr>) = None"
proof -
  have pk: "pack_Q (native raw_lib) 10485760 = Inr [0, 0, 160, 0, 0, 0, 0, 0]"
    by (simp add: raw_lib_def pack_Q_Little le_bytes_numeral)
  have ne: "[1, 2, 3, 4 :: byte] \<noteq> []" by simp
  have short: "length [1, 2, 3, 4 :: byte] < 10485760" by simp
  have fits: "10485760 \<le> ssize_max" by (simp add: ssize_max_def)
  from receive_short_payload_never_returns [OF pk ne short fits, of True a_server]
    pk ne short fits
  show ?thesis by blast
qed

section \<open>The framing of a message\<close>

text \<open>
  The message that \<^verbatim>\<open>send\<close> builds for a frame whose pickle has fewer than
  \<open>2 ^ 64\<close> bytes is an 8-byte prefix followed by the pickle, and the prefix unpacks
  to the length of the pickle.
\<close>

theorem encode_is_prefix_and_payload:
  assumes "dumps L frame = Some payload" and "length payload < 2 ^ 64"
  shows "\<exists>prefix. encode L frame = Inr (prefix @ payload) \<and> length prefix = 8 \<and>
           unpack_Q (native L) prefix = Inr (length payload) \<and>
           length (prefix @ payload) = 8 + length payload"
proof -
  from assms(2) obtain prefix where pk: "pack_Q (native L) (length payload) = Inr prefix"
    by (auto simp: pack_Q_def)
  from pack_Q_length[OF pk] unpack_pack_Q[OF pk] assms(1) pk show ?thesis
    by (simp add: encode_def payload_size_def)
qed

text \<open>The frame \<^verbatim>\<open>01 02 03 04\<close>, pickled as itself.\<close>

theorem encode_is_prefix_and_payload_witness:
  "dumps raw_lib [1, 2, 3, 4] = Some [1, 2, 3, 4] \<and> length [1, 2, 3, 4 :: byte] < 2 ^ 64 \<and>
   (\<exists>prefix. encode raw_lib [1, 2, 3, 4] = Inr (prefix @ [1, 2, 3, 4]) \<and> length prefix = 8 \<and>
      unpack_Q (native raw_lib) prefix = Inr (length [1, 2, 3, 4 :: byte]) \<and>
      length (prefix @ [1, 2, 3, 4 :: byte]) = 8 + length [1, 2, 3, 4 :: byte])"
proof -
  have d: "dumps raw_lib [1, 2, 3, 4] = Some [1, 2, 3, 4]" by (simp add: raw_lib_def)
  have l: "length [1, 2, 3, 4 :: byte] < 2 ^ 64" by simp
  from encode_is_prefix_and_payload [OF d l] d l show ?thesis by blast
qed

text \<open>
  When a whole message whose payload unpickles has arrived in one segment,
  \<^verbatim>\<open>receive(show=False)\<close> returns \<^verbatim>\<open>(True, frame)\<close> and takes exactly
  the bytes of the message off the stream: what follows it in the segment stays.
\<close>

theorem receive_takes_one_whole_message:
  assumes "readable ep"
    and "incoming ep = Chunk (prefix @ payload @ trailing) # rest"
    and "pack_Q (native L) (length payload) = Inr prefix"
    and "payload \<noteq> []" and "length payload \<le> ssize_max"
    and "loads L payload = Some frame"
  shows "receive L False ep =
     Some (PyTuple True (Some frame),
           ep\<lparr>incoming := (if trailing = [] then rest else Chunk trailing # rest)\<rparr>)"
  using assms(6)
  by (simp add: receive_def receive_try_whole_message[OF assms(1-5)])

text \<open>The 12 bytes of a message followed in its segment by 4 bytes of the next.\<close>

theorem receive_takes_one_whole_message_witness:
  "receive raw_lib False
     (a_client\<lparr>incoming := [Chunk ([4, 0, 0, 0, 0, 0, 0, 0] @ [1, 2, 3, 4] @ [9, 0, 0, 0])]\<rparr>) =
   Some (PyTuple True (Some [1, 2, 3, 4]), a_client\<lparr>incoming := [Chunk [9, 0, 0, 0]]\<rparr>)"
proof -
  let ?ep = "a_client\<lparr>incoming := [Chunk ([4, 0, 0, 0, 0, 0, 0, 0] @ [1, 2, 3, 4] @ [9, 0, 0, 0])]\<rparr>"
  have h: "readable ?ep"
    "incoming ?ep = Chunk ([4, 0, 0, 0, 0, 0, 0, 0] @ [1, 2, 3, 4] @ [9, 0, 0, 0]) # []"
    "pack_Q (native raw_lib) (length [1, 2, 3, 4 :: byte]) = Inr [4, 0, 0, 0, 0, 0, 0, 0]"
    "[1, 2, 3, 4 :: byte] \<noteq> []" "length [1, 2, 3, 4 :: byte] \<le> ssize_max"
    "loads raw_lib [1, 2, 3, 4] = Some [1, 2, 3, 4]"
    by (simp_all add: readable_def a_client_def Client_init_def Socket_init_def raw_lib_def
        pack_Q_Little le_bytes_numeral ssize_max_def)
  from receive_takes_one_whole_message [OF h] show ?thesis by simp
qed

section \<open>Bytes consumed by \<^verbatim>\<open>receive\<close>\<close>

text \<open>
  C3. The message that \<^verbatim>\<open>send\<close> builds for the payload \<^verbatim>\<open>01 02 03 04\<close> is
  the 8-byte prefix of 4 and the payload, 12 bytes. The peer delivers its first 9 bytes
  in one segment and, in the next, the other 3 with the first 4 bytes
  \<^verbatim>\<open>09 00 00 00\<close> of the following message. \<^verbatim>\<open>receive\<close> asks for
  \<^verbatim>\<open>msg_size\<close> bytes in every \<^verbatim>\<open>recv\<close>, whatever it already holds: it takes
  13 bytes off the stream, returns the frame and drops the byte \<^verbatim>\<open>09\<close> with its
  local \<^verbatim>\<open>data\<close>.
\<close>

theorem receive_consumes_trailing_byte:
  "encode raw_lib [1, 2, 3, 4] = Inr ([4, 0, 0, 0, 0, 0, 0, 0] @ [1, 2, 3, 4]) \<and>
   receive raw_lib False
     (a_server\<lparr>client_socket := Some PeerSock,
        incoming := [Chunk ([4, 0, 0, 0, 0, 0, 0, 0] @ [1]), Chunk ([2, 3, 4] @ [9, 0, 0, 0])]\<rparr>) =
     Some (PyTuple True (Some [1, 2, 3, 4]),
           a_server\<lparr>client_socket := Some PeerSock, incoming := [Chunk [0, 0, 0]]\<rparr>)"
proof
  show "encode raw_lib [1, 2, 3, 4] = Inr ([4, 0, 0, 0, 0, 0, 0, 0] @ [1, 2, 3, 4])"
    by (simp add: encode_def raw_lib_def pack_Q_Little le_bytes_numeral)
  show "receive raw_lib False
     (a_server\<lparr>client_socket := Some PeerSock,
        incoming := [Chunk ([4, 0, 0, 0, 0, 0, 0, 0] @ [1]), Chunk ([2, 3, 4] @ [9, 0, 0, 0])]\<rparr>) =
     Some (PyTuple True (Some [1, 2, 3, 4]),
           a_server\<lparr>client_socket := Some PeerSock, incoming := [Chunk [0, 0, 0]]\<rparr>)"
    by (simp add: receive_def receive_try_def recv_prefix_step recv_prefix_done
        recv_body_step recv_body_done sock_recv_peer unpack_Q_def payload_size_def raw_lib_def
        ssize_max_def)
qed

section \<open>\<^verbatim>\<open>receive\<close> with \<^verbatim>\<open>show\<close> on an endpoint without capture\<close>



section \<open>\<^verbatim>\<open>send\<close> drops every exception of its \<^verbatim>\<open>try\<close> block\<close>

lemma video_read_attributes: "video_read ep = (r, ep') \<Longrightarrow> attributes ep' = attributes ep"
  by (auto simp: video_read_def attributes_def split: option.splits list.splits)

lemma sock_sendall_attributes:
  "sock_sendall m ep = (r, ep') \<Longrightarrow> attributes ep' = attributes ep"
  by (auto simp: sock_sendall_def attributes_def
      split: option.splits pysock.splits list.splits if_splits)

lemma send_try_attributes:
  "send_try L f res show ep = (r, ep') \<Longrightarrow> attributes ep' = attributes ep"
  by (auto simp: send_try_def split: sum.splits prod.splits if_splits
      dest!: video_show_attributes sock_sendall_attributes)

lemma send_try_attributes_snd:
  "attributes (snd (send_try L f res show ep)) = attributes ep"
  by (rule send_try_attributes[OF surjective_pairing])

lemma send_attributes:
  "send L frame res show ep = (r, ep') \<Longrightarrow> attributes ep' = attributes ep"
  by (auto simp: send_def send_try_attributes_snd
      split: sum.splits prod.splits if_splits option.splits
      dest!: video_read_attributes)

lemma send_returns_None:
  assumes "capture_video ep \<longrightarrow> video ep \<noteq> None"
  shows "fst (send L frame res show ep) = Inr PyNone"
  using assms
  by (auto simp: send_def video_read_def split: sum.splits prod.splits option.splits list.splits)

text \<open>
  C7. On an endpoint whose \<^verbatim>\<open>video\<close> attribute is bound when
  \<^verbatim>\<open>capture_video\<close> is true (the constructor's invariant), \<^verbatim>\<open>send\<close>
  returns \<^verbatim>\<open>None\<close> for every frame and every environment, so also when
  \<^verbatim>\<open>sendall\<close> raises; it changes no attribute of the object; and an exception
  raised in the \<^verbatim>\<open>try\<close> block leaves nothing but the state it was raised in.
\<close>

theorem send_drops_every_error:
  assumes "capture_video ep \<longrightarrow> video ep \<noteq> None"
  shows "fst (send L frame res show ep) = Inr PyNone \<and>
         attributes (snd (send L frame res show ep)) = attributes ep \<and>
         (\<forall>f e ep1. send_try L f res show ep = (Inl e, ep1) \<longrightarrow>
            send L (Some f) res show ep = (Inr PyNone, ep1))"
proof (intro conjI allI impI)
  show "fst (send L frame res show ep) = Inr PyNone"
    using assms by (rule send_returns_None)
  show "attributes (snd (send L frame res show ep)) = attributes ep"
    by (rule send_attributes[OF surjective_pairing])
  fix f e ep1
  assume "send_try L f res show ep = (Inl e, ep1)"
  then show "send L (Some f) res show ep = (Inr PyNone, ep1)"
    by (simp add: send_def)
qed

text \<open>
  A client whose next \<^verbatim>\<open>sendall\<close> raises: the frame is lost and the call
  returns \<^verbatim>\<open>None\<close>.
\<close>

theorem send_drops_every_error_witness:
  "\<not> capture_video (a_client\<lparr>sendall_ok := [False]\<rparr>) \<and>
   send_try raw_lib [1, 2, 3, 4] (Res 640 480) False (a_client\<lparr>sendall_ok := [False]\<rparr>) =
     (Inl SocketError, a_client\<lparr>sendall_ok := []\<rparr>) \<and>
   send raw_lib (Some [1, 2, 3, 4]) (Res 640 480) False (a_client\<lparr>sendall_ok := [False]\<rparr>) =
     (Inr PyNone, a_client\<lparr>sendall_ok := []\<rparr>)"
proof -
  let ?ep = "a_client\<lparr>sendall_ok := [False]\<rparr>"
  have c: "\<not> capture_video ?ep"
    by (simp add: a_client_def Client_init_def Socket_init_def)
  then have h: "capture_video ?ep \<longrightarrow> video ?ep \<noteq> None" by simp
  have t: "send_try raw_lib [1, 2, 3, 4] (Res 640 480) False ?ep =
     (Inl SocketError, a_client\<lparr>sendall_ok := []\<rparr>)"
    by (simp add: send_try_def encode_def resize_def raw_lib_def pack_Q_Little le_bytes_numeral
        sock_sendall_def a_client_def Client_init_def Socket_init_def quiet_env_def)
  from send_drops_every_error [OF h, of raw_lib "Some [1, 2, 3, 4]" "Res 640 480" False] t c
  show ?thesis by blast
qed

section \<open>\<^verbatim>\<open>close\<close>\<close>

text \<open>
  C6. On every endpoint a constructor has built, \<^verbatim>\<open>close\<close> closes the socket
  and then raises \<^verbatim>\<open>AttributeError\<close>: its log line reads
  \<^verbatim>\<open>self.socket_type\<close>, which no code binds. A second call leaves the state
  of the first and raises again.
\<close>

theorem close_raises_AttributeError:
  "close (Client_init name cv res env) =
     (Inl AttributeError, (Client_init name cv res env)\<lparr>socket_closed := True\<rparr>) \<and>
   close (Server_init name cv res env) =
     (Inl AttributeError, (Server_init name cv res env)\<lparr>socket_closed := True\<rparr>) \<and>
   snd (close (snd (close ep))) = snd (close ep) \<and>
   fst (close (snd (close ep))) = fst (close ep)"
  by (simp add: close_def Client_init_def Server_init_def Socket_init_def Let_def
      split: option.splits)

section \<open>\<^verbatim>\<open>connect\<close>: one attempt with a timeout, retries without\<close>









lemma sock_dial_fails:
  "\<not> peer_ready ep (attempts ep) \<Longrightarrow>
   \<exists>e. sock_dial host_ip port ep =
     (Inl e, ep\<lparr>attempts := Suc (attempts ep), effects := effects ep @ [Dialing]\<rparr>)"
  by (auto simp: sock_dial_def Let_def split: option.splits pysock.splits)


lemma client_ask_given:
  "\<lbrakk>h \<noteq> []; p \<noteq> 0\<rbrakk> \<Longrightarrow> client_ask L (Some h) (Some p) ep = (Inr (Some h, Some p), ep)"
  by (simp add: client_ask_def host_or_ask_def port_or_ask_def)





lemma server_bind_given:
  "can_bind port ep \<Longrightarrow>
   server_bind L port ep =
     (Inr port, ep\<lparr>socket_bound := True, effects := effects ep @ [Binding]\<rparr>)"
  by (auto simp: can_bind_def server_bind_def port_or_ask_def sock_bind_def
      split: option.splits)

lemma server_connect_timeout_fails:
  assumes "0 < timeout" and "\<not> socket_closed s" and "timed_out s \<or> can_bind port s"
    and "\<not> peer_ready s (attempts s)"
  shows "server_connect L port timeout s =
     Some (Inr PyNone,
       s\<lparr>socket_timeout := Some timeout,
         socket_bound := (socket_bound s \<or> \<not> timed_out s),
         timed_out := True, attempts := Suc (attempts s),
         effects := effects s @ (if timed_out s then [] else [Binding]) @ [Listening, Accepting]\<rparr>)"
proof (cases "timed_out s")
  case True
  with assms show ?thesis
    by (subst server_connect.simps)
       (simp add: settimeout_def sock_listen_def sock_accept_def Let_def)
next
  case False
  with assms have cb: "can_bind port (s\<lparr>socket_timeout := Some timeout\<rparr>)"
    by (simp add: can_bind_def split: option.splits)
  from False assms show ?thesis
    by (subst server_connect.simps)
       (simp add: settimeout_def server_bind_given[OF cb] sock_listen_def sock_accept_def Let_def)
qed

lemma client_connect_timeout_fails:
  assumes "0 < timeout" and "client_socket c = Some OwnSock" and "\<not> socket_closed c"
    and "h \<noteq> []" and "p \<noteq> 0" and "\<not> peer_ready c (attempts c)"
  shows "client_connect L (Some h) (Some p) timeout c =
     Some (Inr PyNone,
       c\<lparr>socket_timeout := Some timeout, timed_out := True, attempts := Suc (attempts c),
         effects := effects c @ [Dialing]\<rparr>)"
proof -
  let ?c1 = "c\<lparr>socket_timeout := Some timeout\<rparr>"
  have "\<not> peer_ready ?c1 (attempts ?c1)" using assms(6) by simp
  from sock_dial_fails[OF this] obtain e where
    d: "sock_dial (Some h) (Some p) ?c1 =
      (Inl e, ?c1\<lparr>attempts := Suc (attempts ?c1), effects := effects ?c1 @ [Dialing]\<rparr>)"
    by blast
  from assms show ?thesis
    by (subst client_connect.simps)
       (simp add: client_settimeout_def settimeout_def client_ask_given d)
qed




text \<open>
  C4. With \<^verbatim>\<open>timeout > 0\<close>, when the attempt fails (no peer connects in it),
  \<^verbatim>\<open>Server.connect\<close> and \<^verbatim>\<open>Client.connect\<close> return \<^verbatim>\<open>None\<close>
  after that one attempt: \<^verbatim>\<open>timed_out\<close> is set, the attempt counter has grown
  by one, and the effects hold one \<^verbatim>\<open>accept\<close> (one \<^verbatim>\<open>connect\<close> of the
  socket) and no sleep. The server's socket is open and either \<^verbatim>\<open>timed_out\<close>
  is already set or \<^verbatim>\<open>bind\<close> succeeds; the client is given a host and a port.
\<close>

theorem timeout_connect_returns_once:
  assumes "0 < timeout"
    and "\<not> socket_closed s" and "timed_out s \<or> can_bind port s"
    and "\<not> peer_ready s (attempts s)"
    and "client_socket c = Some OwnSock" and "\<not> socket_closed c"
    and "h \<noteq> []" and "p \<noteq> 0" and "\<not> peer_ready c (attempts c)"
  shows "server_connect L port timeout s =
     Some (Inr PyNone,
       s\<lparr>socket_timeout := Some timeout,
         socket_bound := (socket_bound s \<or> \<not> timed_out s),
         timed_out := True, attempts := Suc (attempts s),
         effects := effects s @ (if timed_out s then [] else [Binding]) @ [Listening, Accepting]\<rparr>) \<and>
    client_connect L (Some h) (Some p) timeout c =
     Some (Inr PyNone,
       c\<lparr>socket_timeout := Some timeout, timed_out := True, attempts := Suc (attempts c),
         effects := effects c @ [Dialing]\<rparr>)"
  using assms
  by (intro conjI server_connect_timeout_fails client_connect_timeout_fails)

theorem timeout_connect_returns_once_witness:
  "server_connect raw_lib (Some 5000) 3 a_server =
     Some (Inr PyNone,
       a_server\<lparr>socket_timeout := Some 3, socket_bound := True, timed_out := True,
         attempts := 1, effects := [Binding, Listening, Accepting]\<rparr>) \<and>
   client_connect raw_lib (Some ''127.0.0.1'') (Some 5000) 3 a_client =
     Some (Inr PyNone,
       a_client\<lparr>socket_timeout := Some 3, timed_out := True, attempts := 1,
         effects := [Dialing]\<rparr>)"
proof -
  have s: "\<not> socket_closed a_server" "timed_out a_server \<or> can_bind (Some 5000) a_server"
    "\<not> peer_ready a_server (attempts a_server)"
    by (simp_all add: a_server_def Server_init_def Socket_init_def quiet_env_def can_bind_def)
  have c: "client_socket a_client = Some OwnSock" "\<not> socket_closed a_client"
    "\<not> peer_ready a_client (attempts a_client)"
    by (simp_all add: a_client_def Client_init_def Socket_init_def quiet_env_def)
  have v: "\<not> timed_out a_server" "attempts a_server = 0" "effects a_server = []"
    "attempts a_client = 0" "effects a_client = []" "\<not> socket_bound a_server"
    by (simp_all add: a_server_def Server_init_def a_client_def Client_init_def Socket_init_def
        quiet_env_def)
  have t: "(0::int) < 3" and h: "''127.0.0.1'' \<noteq> []" and p: "(5000::int) \<noteq> 0" by simp_all
  from timeout_connect_returns_once [OF t s c(1,2) h p c(3), of raw_lib] v
  show ?thesis by simp
qed





section \<open>The pump loops on a failed \<^verbatim>\<open>receive\<close>\<close>

lemma receive_stream_closed:
  "readable ep \<Longrightarrow>
   receive L show (ep\<lparr>incoming := []\<rparr>) = Some (PyNone, ep\<lparr>incoming := []\<rparr>)"
  by (simp add: receive_def receive_try_def recv_prefix_step recv_prefix_done sock_recv_readable
      unpack_Q_def payload_size_def)

text \<open>
  C8. A connected endpoint whose peer has closed the stream. \<^verbatim>\<open>receive\<close>
  returns \<^verbatim>\<open>None\<close>, and the unpacking \<^verbatim>\<open>receiving, _ = ...\<close> raises
  \<^verbatim>\<open>TypeError\<close>: \<^verbatim>\<open>Server.start\<close> ends on the first failed receive, by
  the exception, although its loop has no exit but \<^verbatim>\<open>is_connected\<close>; and
  \<^verbatim>\<open>Client.start\<close> ends by the same exception, not by its \<^verbatim>\<open>break\<close>.
\<close>

theorem pump_loops_end_with_TypeError:
  "server_start L (ep\<lparr>client_socket := Some PeerSock, incoming := []\<rparr>) =
     Some (Inl TypeError, ep\<lparr>client_socket := Some PeerSock, incoming := []\<rparr>) \<and>
   client_start L (ep\<lparr>capture_video := False, client_socket := Some PeerSock, incoming := []\<rparr>) =
     Some (Inl TypeError,
       ep\<lparr>capture_video := False, client_socket := Some PeerSock, incoming := []\<rparr>)"
proof
  have r: "readable (ep\<lparr>client_socket := Some PeerSock\<rparr>)" by (simp add: readable_def)
  from receive_stream_closed[OF r, of L True]
  show "server_start L (ep\<lparr>client_socket := Some PeerSock, incoming := []\<rparr>) =
     Some (Inl TypeError, ep\<lparr>client_socket := Some PeerSock, incoming := []\<rparr>)"
    by (subst server_start.simps) (simp add: is_connected_def)
  have r2: "readable (ep\<lparr>capture_video := False, client_socket := Some PeerSock\<rparr>)"
    by (simp add: readable_def)
  from receive_stream_closed[OF r2, of L True]
  show "client_start L (ep\<lparr>capture_video := False, client_socket := Some PeerSock, incoming := []\<rparr>) =
     Some (Inl TypeError,
       ep\<lparr>capture_video := False, client_socket := Some PeerSock, incoming := []\<rparr>)"
    by (subst client_start.simps) (simp add: is_connected_def send_def)
qed

section \<open>\<^verbatim>\<open>client_socket\<close> stays bound\<close>

lemma attributes_is_connected:
  "attributes ep' = attributes ep \<Longrightarrow> is_connected ep' = is_connected ep"
  by (simp add: attributes_def is_connected_def)

lemma set_port_socket: "set_port L ep = (r, ep') \<Longrightarrow> client_socket ep' = client_socket ep"
  by (auto simp: set_port_def split: option.splits prod.splits)

lemma set_ip_socket: "set_ip ep = (r, ep') \<Longrightarrow> client_socket ep' = client_socket ep"
  by (auto simp: set_ip_def split: option.splits list.splits)

lemma settimeout_socket: "settimeout t ep = (r, ep') \<Longrightarrow> client_socket ep' = client_socket ep"
  by (auto simp: settimeout_def split: if_splits)

lemma server_bind_socket:
  "server_bind L port ep = (r, ep') \<Longrightarrow> client_socket ep' = client_socket ep"
  by (auto simp: server_bind_def port_or_ask_def sock_bind_def
      split: option.splits prod.splits sum.splits if_splits dest!: set_port_socket)

lemma sock_listen_socket: "sock_listen ep = (r, ep') \<Longrightarrow> client_socket ep' = client_socket ep"
  by (auto simp: sock_listen_def split: if_splits)

lemma sock_accept_socket: "sock_accept ep = (r, ep') \<Longrightarrow> client_socket ep' = client_socket ep"
  by (auto simp: sock_accept_def Let_def split: if_splits)

lemma client_settimeout_socket:
  "client_settimeout t ep = (r, ep') \<Longrightarrow> client_socket ep' = client_socket ep"
  by (auto simp: client_settimeout_def split: option.splits pysock.splits if_splits
      dest!: settimeout_socket)

lemma client_ask_socket:
  "client_ask L host_ip port ep = (r, ep') \<Longrightarrow> client_socket ep' = client_socket ep"
  by (auto simp: client_ask_def host_or_ask_def port_or_ask_def
      split: option.splits prod.splits sum.splits if_splits
      dest!: set_port_socket set_ip_socket)

lemma sock_dial_socket:
  "sock_dial host_ip port ep = (r, ep') \<Longrightarrow> client_socket ep' = client_socket ep"
  by (auto simp: sock_dial_def Let_def split: option.splits pysock.splits if_splits)


lemma server_connect_keeps_socket:
  assumes "server_connect L port timeout ep = Some y"
  shows "is_connected ep = Inr True \<longrightarrow> is_connected (snd y) = Inr True"
proof (rule server_connect.raw_induct
    [where P = "\<lambda>L port timeout ep y.
       is_connected ep = Inr True \<longrightarrow> is_connected (snd y) = Inr True", OF _ assms])
  fix f :: "'a lib \<Rightarrow> int option \<Rightarrow> int \<Rightarrow> 'a endpoint \<Rightarrow> ((pyerr + 'a pyval) \<times> 'a endpoint) option"
  fix L port timeout ep y
  assume IH: "\<And>L port timeout ep y. f L port timeout ep = Some y \<Longrightarrow>
     is_connected ep = Inr True \<longrightarrow> is_connected (snd y) = Inr True"
  assume step: "(case (if timeout = 0 then (Inr (), ep) else settimeout timeout ep) of
        (Inl e, ep1) \<Rightarrow> Some (Inl e, ep1)
      | (Inr u, ep1) \<Rightarrow>
          (case (if \<not> timed_out ep1 then server_bind L port ep1 else (Inr port, ep1)) of
             (Inl e, ep2) \<Rightarrow> Some (Inl e, ep2)
           | (Inr port2, ep2) \<Rightarrow>
               (case sock_listen ep2 of
                  (Inl e, ep3) \<Rightarrow> Some (Inl e, ep3)
                | (Inr u, ep3) \<Rightarrow>
                    (case sock_accept ep3 of
                       (Inr u, ep4) \<Rightarrow> Some (Inr PyNone, ep4\<lparr>client_socket := Some PeerSock\<rparr>)
                     | (Inl e, ep4) \<Rightarrow>
                         if timeout \<noteq> 0 then Some (Inr PyNone, ep4\<lparr>timed_out := True\<rparr>)
                         else f L port2 timeout
                                (sleep 1 (ep4\<lparr>timed_out := True\<rparr>)))))) = Some y"
  show "is_connected ep = Inr True \<longrightarrow> is_connected (snd y) = Inr True"
  proof
    assume c: "is_connected ep = Inr True"
    obtain r1 ep1 where s1: "(if timeout = 0 then (Inr (), ep) else settimeout timeout ep) = (r1, ep1)"
      by (cases "if timeout = 0 then (Inr (), ep) else settimeout timeout ep")
    then have c1: "client_socket ep1 = client_socket ep"
      by (auto split: if_splits dest: settimeout_socket)
    obtain r2 ep2 where
      s2: "(if \<not> timed_out ep1 then server_bind L port ep1 else (Inr port, ep1)) = (r2, ep2)"
      by (cases "if \<not> timed_out ep1 then server_bind L port ep1 else (Inr port, ep1)")
    then have c2: "client_socket ep2 = client_socket ep1"
      by (auto split: if_splits dest: server_bind_socket)
    obtain r3 ep3 where s3: "sock_listen ep2 = (r3, ep3)" by (cases "sock_listen ep2")
    then have c3: "client_socket ep3 = client_socket ep2" by (rule sock_listen_socket)
    obtain r4 ep4 where s4: "sock_accept ep3 = (r4, ep4)" by (cases "sock_accept ep3")
    then have c4: "client_socket ep4 = client_socket ep3" by (rule sock_accept_socket)
    have k: "is_connected (sleep 1 (ep4\<lparr>timed_out := True\<rparr>)) = Inr True"
      "is_connected ep1 = Inr True" "is_connected ep2 = Inr True" "is_connected ep3 = Inr True"
      "is_connected (ep4\<lparr>timed_out := True\<rparr>) = Inr True"
      using c c1 c2 c3 c4 by (simp_all add: is_connected_def sleep_def)
    from step show "is_connected (snd y) = Inr True"
      unfolding s1 using k
      by (cases r1; cases r2; cases r3; cases r4)
         (auto simp: s2 s3 s4 is_connected_def split: if_splits dest: IH)
  qed
qed


lemma client_connect_keeps_socket:
  assumes "client_connect L host_ip port timeout ep = Some y"
  shows "is_connected ep = Inr True \<longrightarrow> is_connected (snd y) = Inr True"
proof (rule client_connect.raw_induct
    [where P = "\<lambda>L host_ip port timeout ep y.
       is_connected ep = Inr True \<longrightarrow> is_connected (snd y) = Inr True", OF _ assms])
  fix f :: "'a lib \<Rightarrow> string option \<Rightarrow> int option \<Rightarrow> int \<Rightarrow> 'a endpoint \<Rightarrow>
     ((pyerr + 'a pyval) \<times> 'a endpoint) option"
  fix L host_ip port timeout ep and y :: "(pyerr + 'a pyval) \<times> 'a endpoint"
  assume IH: "\<And>L host_ip port timeout ep y. f L host_ip port timeout ep = Some y \<Longrightarrow>
     is_connected ep = Inr True \<longrightarrow> is_connected (snd y) = Inr True"
  assume step: "(case (if timeout = 0 then (Inr (), ep) else client_settimeout timeout ep) of
        (Inl e, ep1) \<Rightarrow> Some (Inl e, ep1)
      | (Inr u, ep1) \<Rightarrow>
          (case (if \<not> timed_out ep1 then client_ask L host_ip port ep1
                 else (Inr (host_ip, port), ep1)) of
             (Inl e, ep2) \<Rightarrow> Some (Inl e, ep2)
           | (Inr (host2, port2), ep2) \<Rightarrow>
               (case sock_dial host2 port2 ep2 of
                  (Inr u, ep3) \<Rightarrow> Some (Inr (PyBool True), ep3)
                | (Inl e, ep3) \<Rightarrow>
                    if timeout \<noteq> 0 then Some (Inr PyNone, ep3\<lparr>timed_out := True\<rparr>)
                    else
                      Option.bind
                        (f L host2 port2 timeout
                           (sleep 1 (ep3\<lparr>timed_out := True\<rparr>)))
                        (\<lambda>(r, ep4).
                           Some ((case r of Inl e \<Rightarrow> Inl e | Inr v \<Rightarrow> Inr PyNone), ep4))))) = Some y"
  show "is_connected ep = Inr True \<longrightarrow> is_connected (snd y) = Inr True"
  proof
    assume c: "is_connected ep = Inr True"
    obtain r1 ep1 where
      s1: "(if timeout = 0 then (Inr (), ep) else client_settimeout timeout ep) = (r1, ep1)"
      by (cases "if timeout = 0 then (Inr (), ep) else client_settimeout timeout ep")
    then have c1: "client_socket ep1 = client_socket ep"
      by (auto split: if_splits dest: client_settimeout_socket)
    obtain r2 ep2 where
      s2: "(if \<not> timed_out ep1 then client_ask L host_ip port ep1
            else (Inr (host_ip, port), ep1)) = (r2, ep2)"
      by (cases "if \<not> timed_out ep1 then client_ask L host_ip port ep1
            else (Inr (host_ip, port), ep1)")
    then have c2: "client_socket ep2 = client_socket ep1"
      by (auto split: if_splits dest: client_ask_socket)
    have k: "is_connected ep1 = Inr True" "is_connected ep2 = Inr True"
      using c c1 c2 by (simp_all add: is_connected_def)
    show "is_connected (snd y) = Inr True"
    proof (cases r1)
      case (Inl e)
      with step s1 k show ?thesis by auto
    next
      case r1: (Inr u)
      show ?thesis
      proof (cases r2)
        case (Inl e)
        with step s1 s2 r1 k show ?thesis by auto
      next
        case (Inr hp)
        obtain host2 port2 where hp: "hp = (host2, port2)" by (cases hp)
        obtain r3 ep3 where s3: "sock_dial host2 port2 ep2 = (r3, ep3)"
          by (cases "sock_dial host2 port2 ep2")
        then have c3: "client_socket ep3 = client_socket ep2" by (rule sock_dial_socket)
        have k3: "is_connected ep3 = Inr True"
          "is_connected (ep3\<lparr>timed_out := True\<rparr>) = Inr True"
          "is_connected (sleep 1 (ep3\<lparr>timed_out := True\<rparr>)) = Inr True"
          using k c3 by (simp_all add: is_connected_def sleep_def)
        from step s1 s2 r1 Inr hp s3 k3 show ?thesis
          by (cases r3) (auto split: if_splits Option.bind_splits dest: IH)
      qed
    qed
  qed
qed

lemma pump_step_socket:
  "receive L show ep = Some (r, ep1) \<Longrightarrow> is_connected ep1 = is_connected ep"
  "send L frame res sh ep = (v, ep2) \<Longrightarrow> is_connected ep2 = is_connected ep"
  by (auto dest!: receive_attributes send_attributes attributes_is_connected)

lemma server_start_keeps_socket:
  assumes "server_start L ep = Some y"
  shows "is_connected ep = Inr True \<longrightarrow> is_connected (snd y) = Inr True"
proof (rule server_start.raw_induct
    [where P = "\<lambda>L ep y. is_connected ep = Inr True \<longrightarrow> is_connected (snd y) = Inr True",
     OF _ assms])
  fix f :: "'a lib \<Rightarrow> 'a endpoint \<Rightarrow> ((pyerr + 'a pyval) \<times> 'a endpoint) option"
  fix L ep and y :: "(pyerr + 'a pyval) \<times> 'a endpoint"
  assume IH: "\<And>L ep y. f L ep = Some y \<Longrightarrow>
     is_connected ep = Inr True \<longrightarrow> is_connected (snd y) = Inr True"
  assume step: "(case is_connected ep of
        Inl e \<Rightarrow> Some (Inl e, ep)
      | Inr connected \<Rightarrow>
          if \<not> connected then Some (Inr PyNone, ep)
          else
            Option.bind (receive L True ep)
              (\<lambda>(r, ep1).
                 case r of
                   PyTuple receiving fr \<Rightarrow>
                     if receiving then
                       (case send L None (Res 640 480) False ep1 of
                          (Inl e, ep2) \<Rightarrow> Some (Inl e, ep2)
                        | (Inr v, ep2) \<Rightarrow> f L ep2)
                     else f L ep1
                 | PyNone \<Rightarrow> Some (Inl TypeError, ep1)
                 | PyBool b \<Rightarrow> Some (Inl TypeError, ep1))) = Some y"
  show "is_connected ep = Inr True \<longrightarrow> is_connected (snd y) = Inr True"
  proof
    assume c: "is_connected ep = Inr True"
    from step c obtain r ep1 where rc: "receive L True ep = Some (r, ep1)"
      by (auto split: Option.bind_splits)
    from pump_step_socket(1)[OF rc] c have c1: "is_connected ep1 = Inr True" by simp
    obtain v ep2 where sd: "send L None (Res 640 480) False ep1 = (v, ep2)"
      by (cases "send L None (Res 640 480) False ep1")
    from pump_step_socket(2)[OF sd] c1 have c2: "is_connected ep2 = Inr True" by simp
    from step c c1 c2 show "is_connected (snd y) = Inr True"
      by (cases r; cases v) (auto simp: rc sd split: if_splits dest: IH)
  qed
qed

lemma client_start_keeps_socket:
  assumes "client_start L ep = Some y"
  shows "is_connected ep = Inr True \<longrightarrow> is_connected (snd y) = Inr True"
proof (rule client_start.raw_induct
    [where P = "\<lambda>L ep y. is_connected ep = Inr True \<longrightarrow> is_connected (snd y) = Inr True",
     OF _ assms])
  fix f :: "'a lib \<Rightarrow> 'a endpoint \<Rightarrow> ((pyerr + 'a pyval) \<times> 'a endpoint) option"
  fix L ep and y :: "(pyerr + 'a pyval) \<times> 'a endpoint"
  assume IH: "\<And>L ep y. f L ep = Some y \<Longrightarrow>
     is_connected ep = Inr True \<longrightarrow> is_connected (snd y) = Inr True"
  assume step: "(case is_connected ep of
        Inl e \<Rightarrow> Some (Inl e, ep)
      | Inr connected \<Rightarrow>
          if \<not> connected then Some (Inr PyNone, ep)
          else
            (case send L None (Res 640 480) False ep of
               (Inl e, ep1) \<Rightarrow> Some (Inl e, ep1)
             | (Inr v, ep1) \<Rightarrow>
                 Option.bind (receive L True ep1)
                   (\<lambda>(r, ep2).
                      case r of
                        PyTuple receiving fr \<Rightarrow>
                          if \<not> receiving then Some (Inr PyNone, ep2)
                          else f L ep2
                      | PyNone \<Rightarrow> Some (Inl TypeError, ep2)
                      | PyBool b \<Rightarrow> Some (Inl TypeError, ep2)))) = Some y"
  show "is_connected ep = Inr True \<longrightarrow> is_connected (snd y) = Inr True"
  proof
    assume c: "is_connected ep = Inr True"
    obtain v ep1 where sd: "send L None (Res 640 480) False ep = (v, ep1)"
      by (cases "send L None (Res 640 480) False ep")
    from pump_step_socket(2)[OF sd] c have c1: "is_connected ep1 = Inr True" by simp
    show "is_connected (snd y) = Inr True"
    proof (cases v)
      case (Inl e)
      with step c c1 show ?thesis by (auto simp: sd)
    next
      case (Inr u)
      with step c obtain r ep2 where rc: "receive L True ep1 = Some (r, ep2)"
        by (auto simp: sd split: Option.bind_splits)
      from pump_step_socket(1)[OF rc] c1 have c2: "is_connected ep2 = Inr True" by simp
      from step c Inr c2 show ?thesis
        by (cases r) (auto simp: sd rc split: if_splits dest: IH)
    qed
  qed
qed

lemma call_keeps_socket:
  assumes "is_connected ep = Inr True" and "call L op ep = Some (r, ep')"
  shows "is_connected ep' = Inr True"
proof (cases op)
  case (Send frame res sh)
  with assms pump_step_socket(2)[of L frame res sh ep r ep'] show ?thesis
    by (simp add: call_def)
next
  case (Receive sh)
  with assms obtain v where "receive L sh ep = Some (v, ep')"
    by (auto simp: call_def split: Option.bind_splits)
  from pump_step_socket(1)[OF this] assms(1) show ?thesis by simp
next
  case IsConnected
  with assms show ?thesis by (auto simp: call_def)
next
  case Close
  with assms show ?thesis
    by (auto simp: call_def close_def Let_def is_connected_def split: option.splits)
next
  case (ServerConnect port timeout)
  with assms have "server_connect L port timeout ep = Some (r, ep')" by (simp add: call_def)
  from server_connect_keeps_socket[OF this] assms(1) show ?thesis by simp
next
  case (ClientConnect host_ip port timeout)
  with assms have "client_connect L host_ip port timeout ep = Some (r, ep')"
    by (simp add: call_def)
  from client_connect_keeps_socket[OF this] assms(1) show ?thesis by simp
next
  case ServerStart
  with assms have "server_start L ep = Some (r, ep')" by (simp add: call_def)
  from server_start_keeps_socket[OF this] assms(1) show ?thesis by simp
next
  case ClientStart
  with assms have "client_start L ep = Some (r, ep')" by (simp add: call_def)
  from client_start_keeps_socket[OF this] assms(1) show ?thesis by simp
qed

text \<open>
  C9. Once \<^verbatim>\<open>is_connected\<close> returns \<^verbatim>\<open>True\<close> (the attribute
  \<^verbatim>\<open>client_socket\<close> holds a socket), it does so after every sequence of method
  calls that returns, \<^verbatim>\<open>close\<close> included: no method unbinds the attribute or
  assigns \<^verbatim>\<open>None\<close> to it.
\<close>

theorem client_socket_stays_bound:
  assumes "is_connected ep = Inr True" and "calls L ops ep = Some ep'"
  shows "is_connected ep' = Inr True \<and> client_socket ep' \<noteq> None \<and>
         client_socket ep' \<noteq> Some NoneVal"
proof -
  have "is_connected ep' = Inr True"
    using assms
  proof (induction ops arbitrary: ep)
    case Nil
    then show ?case by simp
  next
    case (Cons op ops)
    from Cons.prems(2) obtain r ep1 where
      c: "call L op ep = Some (r, ep1)" and rest: "calls L ops ep1 = Some ep'"
      by (auto split: Option.bind_splits)
    from call_keeps_socket[OF Cons.prems(1) c] have "is_connected ep1 = Inr True" .
    from Cons.IH[OF this rest] show ?case .
  qed
  then show ?thesis by (auto simp: is_connected_def split: option.splits pysock.splits)
qed

text \<open>
  A client right after its construction is connected; it still is after
  \<^verbatim>\<open>close\<close>, when its socket is closed.
\<close>

theorem client_socket_stays_bound_witness:
  "is_connected a_client = Inr True \<and>
   calls raw_lib [Close, IsConnected] a_client = Some (a_client\<lparr>socket_closed := True\<rparr>) \<and>
   socket_closed (a_client\<lparr>socket_closed := True\<rparr>) \<and>
   is_connected (a_client\<lparr>socket_closed := True\<rparr>) = Inr True"
proof -
  have h1: "is_connected a_client = Inr True"
    by (simp add: is_connected_def a_client_def Client_init_def Socket_init_def)
  have h2: "calls raw_lib [Close, IsConnected] a_client = Some (a_client\<lparr>socket_closed := True\<rparr>)"
    by (simp add: call_def close_def is_connected_def Let_def a_client_def Client_init_def
        Socket_init_def)
  from client_socket_stays_bound [OF h1 h2] h1 h2 show ?thesis by simp
qed

end
